theory Spec2Isabelle
  imports Complex_Main
begin

section \<open>Values and exceptions of the interpreter\<close>

text \<open>
  The program works on documents decoded from JSON. A document is a value of \<open>json\<close>; a
  dictionary is the list of its items in insertion order (keys are strings, and a lookup
  takes the first item of a key). Numbers are integers or finite fractions. A string
  is a list of 8-bit characters: ASCII text is itself, any other character stands as
  its UTF-8 bytes. The character classes and the case mapping below are Python's on
  ASCII; bytes above 127 are caseless and belong to no class. Two limits of the
  interpreter are left out: a number is never infinite or NaN, and \<open>int\<close> reads a
  decimal string of any length (from version 3.11 the interpreter refuses more than
  4300 digits).
\<close>

datatype json =
    JNull
  | JBool bool
  | JInt int
  | JFloat rat
  | JStr string
  | JList "json list"
  | JDict "(string \<times> json) list"

text \<open>
  Every exception the modelled code can raise is a value. \<open>OutsideModel\<close> marks the
  one operation that is not modelled: formatting a float, a list or a dictionary
  into an f-string.
\<close>

datatype py_error =
    KeyError | TypeError | AttributeError | IndexError | ValueError | OutsideModel

definition bind_r :: "py_error + 'a \<Rightarrow> ('a \<Rightarrow> py_error + 'b) \<Rightarrow> py_error + 'b" where
  "bind_r r f = (case r of Inl e \<Rightarrow> Inl e | Inr v \<Rightarrow> f v)"

text \<open>A \<open>for\<close> loop whose body may raise and that appends to a list.\<close>

fun for_collect :: "('a \<Rightarrow> py_error + 'b list) \<Rightarrow> 'a list \<Rightarrow> py_error + 'b list" where
  "for_collect f [] = Inr []"
| "for_collect f (x # xs) =
     (case f x of
        Inl e \<Rightarrow> Inl e
      | Inr ys \<Rightarrow> (case for_collect f xs of Inl e \<Rightarrow> Inl e | Inr zs \<Rightarrow> Inr (ys @ zs)))"

subsection \<open>Characters and strings\<close>

definition is_space :: "char \<Rightarrow> bool" where
  "is_space c = (let n = (of_char c :: nat) in (9 \<le> n \<and> n \<le> 13) \<or> (28 \<le> n \<and> n \<le> 32))"

definition is_digit :: "char \<Rightarrow> bool" where
  "is_digit c = (let n = (of_char c :: nat) in 48 \<le> n \<and> n \<le> 57)"

definition lower_char :: "char \<Rightarrow> char" where
  "lower_char c = (let n = (of_char c :: nat) in if 65 \<le> n \<and> n \<le> 90 then char_of (n + 32) else c)"

definition upper_char :: "char \<Rightarrow> char" where
  "upper_char c = (let n = (of_char c :: nat) in if 97 \<le> n \<and> n \<le> 122 then char_of (n - 32) else c)"

definition lower :: "string \<Rightarrow> string" where
  "lower s = map lower_char s"

definition upper :: "string \<Rightarrow> string" where
  "upper s = map upper_char s"

definition strip :: "string \<Rightarrow> string" where
  "strip s = rev (dropWhile is_space (rev (dropWhile is_space s)))"

definition digit_val :: "char \<Rightarrow> nat" where
  "digit_val c = of_char c - 48"

definition digits_value :: "string \<Rightarrow> nat" where
  "digits_value ds = foldl (\<lambda>a c. 10 * a + digit_val c) 0 ds"

definition digit_char :: "nat \<Rightarrow> char" where
  "digit_char d = char_of (48 + d)"

function str_nat :: "nat \<Rightarrow> string" where
  "str_nat n = (if n < 10 then [digit_char n] else str_nat (n div 10) @ [digit_char (n mod 10)])"
  by pat_completeness auto
termination
  by (relation "measure id") auto

declare str_nat.simps [simp del]

definition str_int :: "int \<Rightarrow> string" where
  "str_int i = (if i < 0 then CHR ''-'' # str_nat (nat (- i)) else str_nat (nat i))"

subsection \<open>Operations on values\<close>

text \<open>Truth value of a document, as \<open>if x\<close>, \<open>x or y\<close> and \<open>not x\<close> read it.\<close>

fun truthy :: "json \<Rightarrow> bool" where
  "truthy JNull = False"
| "truthy (JBool b) = b"
| "truthy (JInt i) = (i \<noteq> 0)"
| "truthy (JFloat r) = (r \<noteq> 0)"
| "truthy (JStr s) = (s \<noteq> [])"
| "truthy (JList xs) = (xs \<noteq> [])"
| "truthy (JDict d) = (d \<noteq> [])"

text \<open>\<open>x.get(k, dflt)\<close>: only a dictionary has the method.\<close>

fun dict_get :: "json \<Rightarrow> string \<Rightarrow> json \<Rightarrow> py_error + json" where
  "dict_get (JDict d) k dflt = Inr (case map_of d k of Some v \<Rightarrow> v | None \<Rightarrow> dflt)"
| "dict_get _ k dflt = Inl AttributeError"

text \<open>\<open>x[k]\<close> with a string key.\<close>

fun subscript_key :: "json \<Rightarrow> string \<Rightarrow> py_error + json" where
  "subscript_key (JDict d) k = (case map_of d k of Some v \<Rightarrow> Inr v | None \<Rightarrow> Inl KeyError)"
| "subscript_key _ k = Inl TypeError"

text \<open>
  \<open>x[i]\<close> with a non-negative integer: a list or a string is indexed, a dictionary
  has no integer key (its keys are strings), nothing else is subscriptable.
\<close>

fun subscript_idx :: "json \<Rightarrow> nat \<Rightarrow> py_error + json" where
  "subscript_idx (JList xs) i = (if i < length xs then Inr (xs ! i) else Inl IndexError)"
| "subscript_idx (JStr s) i = (if i < length s then Inr (JStr [s ! i]) else Inl IndexError)"
| "subscript_idx (JDict d) i = Inl KeyError"
| "subscript_idx _ i = Inl TypeError"

text \<open>The elements a \<open>for\<close> loop visits: a dictionary gives its keys, a string its characters.\<close>

fun py_iter :: "json \<Rightarrow> py_error + json list" where
  "py_iter (JList xs) = Inr xs"
| "py_iter (JDict d) = Inr (map (\<lambda>kv. JStr (fst kv)) d)"
| "py_iter (JStr s) = Inr (map (\<lambda>c. JStr [c]) s)"
| "py_iter _ = Inl TypeError"

fun py_len :: "json \<Rightarrow> py_error + nat" where
  "py_len (JList xs) = Inr (length xs)"
| "py_len (JDict d) = Inr (length d)"
| "py_len (JStr s) = Inr (length s)"
| "py_len _ = Inl TypeError"

fun py_lower :: "json \<Rightarrow> py_error + string" where
  "py_lower (JStr s) = Inr (lower s)"
| "py_lower _ = Inl AttributeError"

fun py_upper :: "json \<Rightarrow> py_error + string" where
  "py_upper (JStr s) = Inr (upper s)"
| "py_upper _ = Inl AttributeError"

text \<open>
  \<open>int(s)\<close> on a string: surrounding whitespace is dropped, then an optional sign, then
  decimal digits, where single underscores may stand between digits.
\<close>

fun body_ok :: "string \<Rightarrow> bool" where
  "body_ok [] = False"
| "body_ok [c] = is_digit c"
| "body_ok (c # d # cs) = (is_digit c \<and> (if d = CHR ''_'' then body_ok cs else body_ok (d # cs)))"

definition body_value :: "string \<Rightarrow> int" where
  "body_value b = int (digits_value (filter (\<lambda>c. c \<noteq> CHR ''_'') b))"

definition int_of_str :: "string \<Rightarrow> int option" where
  "int_of_str s =
     (case strip s of
        [] \<Rightarrow> None
      | c # r \<Rightarrow>
          if c = CHR ''-'' then (if body_ok r then Some (- body_value r) else None)
          else if c = CHR ''+'' then (if body_ok r then Some (body_value r) else None)
          else (if body_ok (c # r) then Some (body_value (c # r)) else None))"

text \<open>\<open>int(x)\<close>: a fraction is truncated towards zero.\<close>

fun py_int :: "json \<Rightarrow> py_error + int" where
  "py_int JNull = Inl TypeError"
| "py_int (JBool b) = Inr (if b then 1 else 0)"
| "py_int (JInt i) = Inr i"
| "py_int (JFloat r) = Inr (if 0 \<le> r then \<lfloor>r\<rfloor> else \<lceil>r\<rceil>)"
| "py_int (JStr s) = (case int_of_str s of Some i \<Rightarrow> Inr i | None \<Rightarrow> Inl ValueError)"
| "py_int (JList xs) = Inl TypeError"
| "py_int (JDict d) = Inl TypeError"

text \<open>\<open>_to_int\<close>: \<open>int(raw)\<close>, with 0 where it raises TypeError or ValueError.\<close>

definition to_int :: "json \<Rightarrow> int" where
  "to_int raw = (case py_int raw of Inr i \<Rightarrow> i | Inl e \<Rightarrow> 0)"

text \<open>The value of an f-string field.\<close>

fun py_format :: "json \<Rightarrow> py_error + string" where
  "py_format (JStr s) = Inr s"
| "py_format JNull = Inr ''None''"
| "py_format (JBool b) = Inr (if b then ''True'' else ''False'')"
| "py_format (JInt i) = Inr (str_int i)"
| "py_format _ = Inl OutsideModel"

text \<open>
  \<open>x == y\<close> on documents: numbers (and booleans, which are numbers) compare by value,
  lists element by element, dictionaries as sets of items.
\<close>

fun num_val :: "json \<Rightarrow> rat option" where
  "num_val (JBool b) = Some (if b then 1 else 0)"
| "num_val (JInt i) = Some (of_int i)"
| "num_val (JFloat r) = Some r"
| "num_val _ = None"

fun py_eq :: "json \<Rightarrow> json \<Rightarrow> bool"
  and py_eq_list :: "json list \<Rightarrow> json list \<Rightarrow> bool"
  and py_eq_items :: "(string \<times> json) list \<Rightarrow> (string \<times> json) list \<Rightarrow> bool" where
  "py_eq JNull y = (y = JNull)"
| "py_eq (JBool b) y = (num_val y = Some (if b then 1 else 0))"
| "py_eq (JInt i) y = (num_val y = Some (of_int i))"
| "py_eq (JFloat r) y = (num_val y = Some r)"
| "py_eq (JStr s) y = (y = JStr s)"
| "py_eq (JList xs) y = (case y of JList ys \<Rightarrow> py_eq_list xs ys | _ \<Rightarrow> False)"
| "py_eq (JDict d) y = (case y of JDict e \<Rightarrow> length d = length e \<and> py_eq_items d e | _ \<Rightarrow> False)"
| "py_eq_list [] ys = (ys = [])"
| "py_eq_list (x # xs) ys = (case ys of [] \<Rightarrow> False | y # ys' \<Rightarrow> py_eq x y \<and> py_eq_list xs ys')"
| "py_eq_items [] e = True"
| "py_eq_items (kv # d) e =
     ((case map_of e (fst kv) of None \<Rightarrow> False | Some w \<Rightarrow> py_eq (snd kv) w) \<and> py_eq_items d e)"

section \<open>StatLineExtractor\<close>

record stat_line =
  name :: json
  pts :: int
  reb :: int
  ast :: int

text \<open>A \<open>for\<close> loop whose body may raise and that updates a state.\<close>

fun for_fold :: "('s \<Rightarrow> 'a \<Rightarrow> py_error + 's) \<Rightarrow> 'a list \<Rightarrow> 's \<Rightarrow> py_error + 's" where
  "for_fold f [] s = Inr s"
| "for_fold f (x # xs) s = (case f s x of Inl e \<Rightarrow> Inl e | Inr s' \<Rightarrow> for_fold f xs s')"

text \<open>
  \<open>_lookup\<close>: the index of the first name whose lower case is the wanted abbreviation or
  its long form, -1 when there is none. The long form is read from a table on every
  iteration, so a name list that is not empty needs a wanted key of the table.
\<close>

definition long_form :: "string \<Rightarrow> string option" where
  "long_form = map_of [(''pts'', ''points''), (''reb'', ''rebounds''), (''ast'', ''assists'')]"

fun lookup_from :: "nat \<Rightarrow> string list \<Rightarrow> string \<Rightarrow> py_error + int" where
  "lookup_from idx [] wanted = Inr (- 1)"
| "lookup_from idx (n # ns) wanted =
     (case long_form wanted of
        None \<Rightarrow> Inl KeyError
      | Some l \<Rightarrow>
          if lower n = wanted \<or> lower n = l then Inr (int idx)
          else lookup_from (Suc idx) ns wanted)"

definition lookup :: "string list \<Rightarrow> string \<Rightarrow> py_error + int" where
  "lookup names wanted = lookup_from 0 names (lower wanted)"

text \<open>
  \<open>_safe\<close> of Format A: \<open>_to_int(raw[i]) if 0 <= i < len(raw) else 0\<close>. The chained
  comparison reads \<open>len(raw)\<close> only when \<open>0 <= i\<close>.
\<close>

definition safe :: "json \<Rightarrow> int \<Rightarrow> py_error + int" where
  "safe raw i =
     (if 0 \<le> i then
        bind_r (py_len raw) (\<lambda>n.
          if i < int n then bind_r (subscript_idx raw (nat i)) (\<lambda>v. Inr (to_int v))
          else Inr 0)
      else Inr 0)"

text \<open>\<open>x.get("athlete", {}).get("displayName", "Unknown")\<close>\<close>

definition display_name :: "json \<Rightarrow> py_error + json" where
  "display_name x =
     bind_r (dict_get x ''athlete'' (JDict [])) (\<lambda>a. dict_get a ''displayName'' (JStr ''Unknown''))"

text \<open>The guard of Format A, an \<open>and\<close> chain read left to right.\<close>

definition is_format_a :: "json \<Rightarrow> py_error + bool" where
  "is_format_a roster =
     (case roster of
        JDict d \<Rightarrow>
          bind_r (dict_get roster ''statistics'' JNull) (\<lambda>st.
            if \<not> truthy st then Inr False
            else bind_r (subscript_idx st 0) (\<lambda>b.
              case b of
                JDict bd \<Rightarrow> bind_r (dict_get b ''athletes'' JNull) (\<lambda>a. Inr (truthy a))
              | _ \<Rightarrow> Inr False))
      | _ \<Rightarrow> Inr False)"

definition format_a_athlete :: "int \<Rightarrow> int \<Rightarrow> int \<Rightarrow> json \<Rightarrow> py_error + stat_line list" where
  "format_a_athlete idx_pts idx_reb idx_ast ath =
     bind_r (dict_get ath ''stats'' (JList [])) (\<lambda>raw.
     bind_r (display_name ath) (\<lambda>nm.
     bind_r (safe raw idx_pts) (\<lambda>p.
     bind_r (safe raw idx_reb) (\<lambda>r.
     bind_r (safe raw idx_ast) (\<lambda>a.
       Inr [\<lparr>name = nm, pts = p, reb = r, ast = a\<rparr>])))))"

definition format_a :: "json \<Rightarrow> py_error + stat_line list" where
  "format_a roster =
     bind_r (subscript_key roster ''statistics'') (\<lambda>st.
     bind_r (subscript_idx st 0) (\<lambda>block.
     bind_r (dict_get block ''names'' (JList [])) (\<lambda>ns.
     bind_r (py_iter ns) (\<lambda>cs.
     bind_r (for_collect (\<lambda>c. bind_r (py_upper c) (\<lambda>u. Inr [u])) cs) (\<lambda>cols.
     bind_r (lookup cols ''pts'') (\<lambda>idx_pts.
     bind_r (lookup cols ''reb'') (\<lambda>idx_reb.
     bind_r (lookup cols ''ast'') (\<lambda>idx_ast.
     bind_r (subscript_key block ''athletes'') (\<lambda>as.
     bind_r (py_iter as) (\<lambda>aths.
       for_collect (format_a_athlete idx_pts idx_reb idx_ast) aths))))))))))"

text \<open>Format B: one statistic category of a player updates \<open>vals\<close> = (pts, reb, ast).\<close>

definition format_b_cat :: "int \<times> int \<times> int \<Rightarrow> json \<Rightarrow> py_error + int \<times> int \<times> int" where
  "format_b_cat vals cat =
     bind_r (dict_get cat ''abbreviation'' JNull) (\<lambda>ab.
     bind_r (if truthy ab then Inr ab else dict_get cat ''name'' (JStr [])) (\<lambda>k.
     bind_r (py_upper k) (\<lambda>key.
       if key = ''PTS'' \<or> key = ''POINTS'' then
         bind_r (dict_get cat ''value'' JNull) (\<lambda>v. Inr (to_int v, fst (snd vals), snd (snd vals)))
       else if key = ''REB'' \<or> key = ''REBOUNDS'' then
         bind_r (dict_get cat ''value'' JNull) (\<lambda>v. Inr (fst vals, to_int v, snd (snd vals)))
       else if key = ''AST'' \<or> key = ''ASSISTS'' then
         bind_r (dict_get cat ''value'' JNull) (\<lambda>v. Inr (fst vals, fst (snd vals), to_int v))
       else Inr vals)))"

definition format_b_player :: "json \<Rightarrow> py_error + stat_line list" where
  "format_b_player ply =
     bind_r (dict_get ply ''statistics'' (JList [])) (\<lambda>st.
     bind_r (py_iter st) (\<lambda>cats.
     bind_r (for_fold format_b_cat cats (0, 0, 0)) (\<lambda>vals.
     bind_r (display_name ply) (\<lambda>nm.
       Inr [\<lparr>name = nm, pts = fst vals, reb = fst (snd vals), ast = snd (snd vals)\<rparr>]))))"

text \<open>The body of the loop over the rosters: the lines one roster adds.\<close>

definition collect_roster :: "json \<Rightarrow> py_error + stat_line list" where
  "collect_roster roster =
     bind_r (is_format_a roster) (\<lambda>a.
       if a then format_a roster
       else (case roster of
               JList plys \<Rightarrow> for_collect format_b_player plys
             | _ \<Rightarrow> Inr []))"

definition collect_players :: "json \<Rightarrow> py_error + stat_line list" where
  "collect_players boxscore =
     bind_r (dict_get boxscore ''players'' (JList [])) (\<lambda>ps.
     bind_r (py_iter ps) (\<lambda>rosters. for_collect collect_roster rosters))"

section \<open>LeaderFallbackBuilder\<close>

text \<open>
  \<open>mapping.get(k)\<close> on the table of the three abbreviations: a list or a dictionary is
  not hashable, any other key that is not one of the three strings gives None.
\<close>

definition mapping_get :: "json \<Rightarrow> py_error + string option" where
  "mapping_get k =
     (case k of
        JStr s \<Rightarrow> Inr (map_of [(''PTS'', ''pts''), (''REB'', ''reb''), (''AST'', ''ast'')] s)
      | JList xs \<Rightarrow> Inl TypeError
      | JDict d \<Rightarrow> Inl TypeError
      | _ \<Rightarrow> Inr None)"

text \<open>\<open>entry[cat] = v\<close> for a category of the table.\<close>

definition set_cat :: "string \<Rightarrow> int \<Rightarrow> stat_line \<Rightarrow> stat_line" where
  "set_cat cat v p =
     (if cat = ''pts'' then p\<lparr>pts := v\<rparr>
      else if cat = ''reb'' then p\<lparr>reb := v\<rparr>
      else p\<lparr>ast := v\<rparr>)"

text \<open>
  The entry is searched by name from the front; the first one found is updated in place,
  and a new one is appended when there is none.
\<close>

fun update_first :: "json \<Rightarrow> string \<Rightarrow> int \<Rightarrow> stat_line list \<Rightarrow> stat_line list" where
  "update_first nm cat v [] = [set_cat cat v \<lparr>name = nm, pts = 0, reb = 0, ast = 0\<rparr>]"
| "update_first nm cat v (p # ps) =
     (if py_eq (name p) nm then set_cat cat v p # ps else p # update_first nm cat v ps)"

definition fallback_entry :: "string \<Rightarrow> stat_line list \<Rightarrow> json \<Rightarrow> py_error + stat_line list" where
  "fallback_entry cat out l =
     bind_r (dict_get l ''athlete'' (JDict [])) (\<lambda>ath.
     bind_r (dict_get ath ''displayName'' JNull) (\<lambda>nm.
     bind_r (dict_get l ''value'' JNull) (\<lambda>v.
       Inr (update_first nm cat (to_int v) out))))"

definition fallback_group :: "stat_line list \<Rightarrow> json \<Rightarrow> py_error + stat_line list" where
  "fallback_group out leader =
     bind_r (dict_get leader ''abbreviation'' JNull) (\<lambda>ab.
     bind_r (mapping_get ab) (\<lambda>c.
       case c of
         None \<Rightarrow> Inr out
       | Some cat \<Rightarrow>
           bind_r (dict_get leader ''leaders'' (JList [])) (\<lambda>ls.
           bind_r (py_iter ls) (\<lambda>es. for_fold (fallback_entry cat) es out))))"

definition fallback_leaders :: "json \<Rightarrow> py_error + stat_line list" where
  "fallback_leaders cmpt =
     bind_r (dict_get cmpt ''leaders'' (JList [])) (\<lambda>ls.
     bind_r (py_iter ls) (\<lambda>groups. for_fold fallback_group groups []))"

section \<open>SeriesReconstructor\<close>

subsection \<open>The two patterns\<close>

text \<open>
  A backtracking matcher for the constructs the two patterns use: a literal (compared
  without case, as under \<open>re.I\<close>), \<open>c+\<close> and \<open>c+?\<close> over a character class,
  alternation, sequence and a named group. \<open>matches r s\<close> lists every way \<open>r\<close> matches
  a prefix of \<open>s\<close>, in the order backtracking tries them, each with the text left over
  and the groups captured; \<open>pattern.match\<close> takes the first.
\<close>

datatype rx =
    Lit string
  | PlusGreedy "char \<Rightarrow> bool"
  | PlusLazy "char \<Rightarrow> bool"
  | Alt rx rx
  | Seq rx rx
  | Group string rx

fun matches :: "rx \<Rightarrow> string \<Rightarrow> (string \<times> (string \<times> string) list) list" where
  "matches (Lit l) s =
     (if length l \<le> length s \<and> lower (take (length l) s) = lower l
      then [(drop (length l) s, [])] else [])"
| "matches (PlusGreedy c) s =
     map (\<lambda>k. (drop k s, [])) (rev [1 ..< Suc (length (takeWhile c s))])"
| "matches (PlusLazy c) s =
     map (\<lambda>k. (drop k s, [])) [1 ..< Suc (length (takeWhile c s))]"
| "matches (Alt a b) s = matches a s @ matches b s"
| "matches (Seq a b) s =
     concat (map (\<lambda>m. map (\<lambda>m'. (fst m', snd m @ snd m')) (matches b (fst m))) (matches a s))"
| "matches (Group n a) s =
     map (\<lambda>m. (fst m, (n, take (length s - length (fst m)) s) # snd m)) (matches a s)"

text \<open>\<open>pattern.match(x)\<close>: only a string can be matched.\<close>

definition re_match :: "rx \<Rightarrow> json \<Rightarrow> py_error + (string \<times> string) list option" where
  "re_match r x =
     (case x of
        JStr s \<Rightarrow> Inr (case matches r s of [] \<Rightarrow> None | m # ms \<Rightarrow> Some (snd m))
      | _ \<Rightarrow> Inl TypeError)"

text \<open>\<open>m[n]\<close>: the text of a group, None for a group that took no part.\<close>

definition grp :: "(string \<times> string) list \<Rightarrow> string \<Rightarrow> json" where
  "grp m n = (case map_of m n of Some t \<Rightarrow> JStr t | None \<Rightarrow> JNull)"

text \<open>\<open>.\<close> is every character but the newline.\<close>

definition dot :: "char \<Rightarrow> bool" where
  "dot c = (c \<noteq> CHR 0x0A)"

definition SERIES_RE :: rx where
  "SERIES_RE =
     Seq (Group ''team'' (PlusLazy dot))
    (Seq (PlusGreedy is_space)
    (Seq (Group ''verb'' (Alt (Lit ''leads'') (Lit ''wins'')))
    (Seq (PlusGreedy is_space)
    (Seq (Lit ''series'')
    (Seq (PlusGreedy is_space)
    (Seq (Group ''wins'' (PlusGreedy is_digit))
    (Seq (Lit ''-'')
         (Group ''losses'' (PlusGreedy is_digit)))))))))"

definition TIED_RE :: rx where
  "TIED_RE =
     Seq (Lit ''Series'')
    (Seq (PlusGreedy is_space)
    (Seq (Alt (Lit ''even'') (Lit ''tied''))
    (Seq (PlusGreedy is_space)
    (Seq (Group ''wins'' (PlusGreedy is_digit))
    (Seq (Lit ''-'')
         (Group ''wins2'' (PlusGreedy is_digit)))))))"

subsection \<open>Resolving the team and rebuilding the label\<close>

text \<open>The four aliases of a team, lower case, in the order the tuple is built.\<close>

definition team_aliases :: "json \<Rightarrow> py_error + string list" where
  "team_aliases team =
     bind_r (bind_r (subscript_key team ''displayName'') py_lower) (\<lambda>a.
     bind_r (bind_r (subscript_key team ''shortDisplayName'') py_lower) (\<lambda>b.
     bind_r (bind_r (subscript_key team ''name'') py_lower) (\<lambda>c.
     bind_r (bind_r (subscript_key team ''abbreviation'') py_lower) (\<lambda>d.
       Inr [a, b, c, d]))))"

fun match_team_loop :: "json \<Rightarrow> json list \<Rightarrow> py_error + json" where
  "match_team_loop team_str [] = Inr team_str"
| "match_team_loop team_str (c # cs) =
     bind_r (subscript_key c ''team'') (\<lambda>team.
     bind_r (py_lower team_str) (\<lambda>t.
     bind_r (team_aliases team) (\<lambda>als.
       if t \<in> set als then subscript_key team ''abbreviation''
       else match_team_loop team_str cs)))"

definition match_team_to_abbr :: "json \<Rightarrow> json \<Rightarrow> py_error + json" where
  "match_team_to_abbr team_str competitors =
     bind_r (py_iter competitors) (\<lambda>cs. match_team_loop team_str cs)"

text \<open>
  \<open>next((c for c in competitors if c.get("winner")), competitors[0])\<close>, as the index of
  the competitor found (None when the default is taken).
\<close>

fun first_winner :: "nat \<Rightarrow> json list \<Rightarrow> py_error + nat option" where
  "first_winner i [] = Inr None"
| "first_winner i (c # cs) =
     bind_r (dict_get c ''winner'' JNull) (\<lambda>w.
       if truthy w then Inr (Some i) else first_winner (Suc i) cs)"

definition team_abbr :: "json \<Rightarrow> py_error + json" where
  "team_abbr c = bind_r (subscript_key c ''team'') (\<lambda>t. subscript_key t ''abbreviation'')"

text \<open>
  The pair (winner_abbr, loser_abbr). \<open>competitors[1] is winner_team\<close> compares
  objects: it holds exactly when the winner was found at index 1.
\<close>

definition winner_loser :: "json \<Rightarrow> py_error + json \<times> json" where
  "winner_loser competitors =
     bind_r (py_iter competitors) (\<lambda>cs.
     bind_r (subscript_idx competitors 0) (\<lambda>c0.
     bind_r (first_winner 0 cs) (\<lambda>w.
     bind_r (team_abbr (case w of Some i \<Rightarrow> cs ! i | None \<Rightarrow> c0)) (\<lambda>winner_abbr.
     bind_r (subscript_idx competitors 1) (\<lambda>c1.
     bind_r (if w = Some 1 then team_abbr c0 else team_abbr c1) (\<lambda>loser_abbr.
       Inr (winner_abbr, loser_abbr)))))))"

text \<open>\<open>f"{a} leads series {x}-{y}"\<close>\<close>

definition series_label :: "json \<Rightarrow> int \<Rightarrow> int \<Rightarrow> py_error + string" where
  "series_label a x y =
     bind_r (py_format a) (\<lambda>t. Inr (t @ '' leads series '' @ str_int x @ ''-'' @ str_int y))"

definition series_before_game :: "json \<Rightarrow> json \<Rightarrow> py_error + json" where
  "series_before_game summary_txt cmpt =
     bind_r (subscript_key cmpt ''competitors'') (\<lambda>competitors.
     bind_r (winner_loser competitors) (\<lambda>wl.
     bind_r (re_match SERIES_RE summary_txt) (\<lambda>m.
       case m of
         Some g \<Rightarrow>
           bind_r (match_team_to_abbr (grp g ''team'') competitors) (\<lambda>leader_abbr.
           bind_r (py_int (grp g ''wins'')) (\<lambda>wins.
           bind_r (py_int (grp g ''losses'')) (\<lambda>losses.
           bind_r (py_lower (grp g ''verb'')) (\<lambda>verb.
             bind_r
               (if verb = ''wins'' then series_label leader_abbr (wins - 1) losses
                else if py_eq leader_abbr (fst wl) then series_label leader_abbr (wins - 1) losses
                else series_label leader_abbr wins (losses - 1))
               (\<lambda>t. Inr (JStr t))))))
       | None \<Rightarrow>
           bind_r (re_match TIED_RE summary_txt) (\<lambda>m2.
             case m2 of
               Some g \<Rightarrow>
                 bind_r (py_int (grp g ''wins'')) (\<lambda>wins.
                 bind_r (series_label (snd wl) wins (wins - 1)) (\<lambda>t. Inr (JStr t)))
             | None \<Rightarrow> Inr summary_txt))))"

section \<open>RoundGameLabeler\<close>

text \<open>\<open>s.split(sep)\<close> for a separator that is not empty.\<close>

function split_sep :: "string \<Rightarrow> string \<Rightarrow> string \<Rightarrow> string list" where
  "split_sep sep cur [] = [rev cur]"
| "split_sep sep cur (c # cs) =
     (if sep \<noteq> [] \<and> take (length sep) (c # cs) = sep
      then rev cur # split_sep sep [] (drop (length sep) (c # cs))
      else split_sep sep (c # cur) cs)"
  by pat_completeness auto
termination
  by (relation "measure (\<lambda>(sep, cur, s). length s)") auto

fun parse_notes :: "json list \<Rightarrow> py_error + string \<times> string" where
  "parse_notes [] = Inr ([], [])"
| "parse_notes (note # notes) =
     bind_r (dict_get note ''type'' JNull) (\<lambda>t.
       if py_eq t (JStr ''event'') then
         bind_r (dict_get note ''headline'' (JStr [])) (\<lambda>h.
           case h of
             JStr hs \<Rightarrow>
               (case split_sep '' - '' [] hs of
                  a # b # rest \<Rightarrow> Inr (a, b)
                | _ \<Rightarrow> parse_notes notes)
           | _ \<Rightarrow> Inl AttributeError)
       else parse_notes notes)"

definition parse_round_and_game :: "json \<Rightarrow> py_error + string \<times> string" where
  "parse_round_and_game event =
     bind_r (dict_get event ''notes'' (JList [])) (\<lambda>ns. bind_r (py_iter ns) parse_notes)"

section \<open>BadgeEvaluator\<close>

text \<open>\<open>max((p["pts"] for p in players), default=0)\<close>\<close>

definition max_pts :: "stat_line list \<Rightarrow> int" where
  "max_pts players = (case players of [] \<Rightarrow> 0 | p # ps \<Rightarrow> foldl max (pts p) (map pts ps))"

definition tier_badges :: "stat_line list \<Rightarrow> string list" where
  "tier_badges players =
     (if max_pts players \<ge> 50 then [''pts50'']
      else if max_pts players \<ge> 40 then [''pts40'']
      else if max_pts players \<ge> 30 then [''pts30'']
      else [])"

definition triple_badges :: "stat_line list \<Rightarrow> string list" where
  "triple_badges players =
     (if list_ex (\<lambda>p. pts p \<ge> 10 \<and> reb p \<ge> 10 \<and> ast p \<ge> 10) players
      then [''tripleDouble''] else [])"

text \<open>\<open>x[:3]\<close>: a list or a string can be sliced.\<close>

fun py_slice3 :: "json \<Rightarrow> py_error + json" where
  "py_slice3 (JList xs) = Inr (JList (take 3 xs))"
| "py_slice3 (JStr s) = Inr (JStr (take 3 s))"
| "py_slice3 _ = Inl TypeError"

definition q3tot :: "json \<Rightarrow> py_error + int" where
  "q3tot team =
     bind_r (dict_get team ''linescores'' (JList [])) (\<lambda>l.
     bind_r (py_slice3 l) (\<lambda>sl.
     bind_r (py_iter sl) (\<lambda>lss.
       for_fold (\<lambda>acc ls. bind_r (dict_get ls ''value'' JNull) (\<lambda>v. Inr (acc + to_int v))) lss 0)))"

text \<open>\<open>_to_int(comp["status"].get("period", 4))\<close>\<close>

definition period :: "json \<Rightarrow> py_error + int" where
  "period cmpt =
     bind_r (subscript_key cmpt ''status'') (\<lambda>st.
     bind_r (dict_get st ''period'' (JInt 4)) (\<lambda>p. Inr (to_int p)))"

definition evaluate_badges :: "stat_line list \<Rightarrow> json \<Rightarrow> json \<Rightarrow> json \<Rightarrow> py_error + string list" where
  "evaluate_badges players home_c away_c cmpt =
     bind_r (q3tot home_c) (\<lambda>qh.
     bind_r (q3tot away_c) (\<lambda>qa.
     bind_r (subscript_key home_c ''score'') (\<lambda>hs.
     bind_r (subscript_key away_c ''score'') (\<lambda>as.
     bind_r (if \<bar>to_int hs - to_int as\<bar> \<le> 7 then Inr True
             else bind_r (period cmpt) (\<lambda>p. Inr (p > 4))) (\<lambda>close_game.
     bind_r (period cmpt) (\<lambda>p.
       Inr (tier_badges players
            @ triple_badges players
            @ (if \<bar>qh - qa\<bar> \<le> 10 then [''close4''] else [])
            @ (if close_game then [''closeGame''] else [])
            @ (if p > 4 then [''overtime''] else []))))))))"

section \<open>GameRecordAssembler\<close>

record game_record =
  gameId :: json
  tipoffUTC :: json
  home :: json
  away :: json
  homeLogo :: json
  awayLogo :: json
  roundTxt :: string
  gameNum :: string
  gameType :: string
  seriesPre :: json
  badges :: "string list"
  replayLink :: "string option"

text \<open>
  The third label is written in the source with the non-breaking hyphen U+2011
  (bytes E2 80 91 in UTF-8) between \<open>Play\<close> and \<open>In\<close>.
\<close>

definition play_in :: string where
  "play_in = ''Play'' @ [CHR 0xE2, CHR 0x80, CHR 0x91] @ ''In''"

text \<open>
  \<open>{1: "Regular Season", 3: "Playoffs"}.get(st, ...)\<close>: a key is found when it equals 1
  or 3 as a number; a list or a dictionary is not hashable.
\<close>

definition game_type_of :: "json \<Rightarrow> py_error + string" where
  "game_type_of st =
     (case st of
        JList xs \<Rightarrow> Inl TypeError
      | JDict d \<Rightarrow> Inl TypeError
      | _ \<Rightarrow>
          Inr (if py_eq st (JInt 1) then ''Regular Season''
               else if py_eq st (JInt 3) then ''Playoffs''
               else play_in))"

text \<open>\<open>s.split()\<close>: the words between runs of whitespace.\<close>

fun split_ws :: "string \<Rightarrow> string \<Rightarrow> string list" where
  "split_ws cur [] = (if cur = [] then [] else [rev cur])"
| "split_ws cur (c # cs) =
     (if is_space c then (if cur = [] then split_ws [] cs else rev cur # split_ws [] cs)
      else split_ws (c # cur) cs)"

text \<open>
  \<open>find_replay_link_for_team\<close>: the slug is the last word of the name in lower case;
  \<open>site\<close> is the replay site, giving the link it holds for a slug, or nothing (also when
  it cannot be reached).
\<close>

definition find_replay_link_for_team :: "(string \<Rightarrow> string option) \<Rightarrow> json \<Rightarrow> py_error + string option" where
  "find_replay_link_for_team site team_full_name =
     (case team_full_name of
        JStr s \<Rightarrow>
          (case split_ws [] (lower (strip s)) of
             [] \<Rightarrow> Inl IndexError
           | w # ws \<Rightarrow> Inr (site (last (w # ws))))
      | _ \<Rightarrow> Inl AttributeError)"

text \<open>
  The summary document of a game: \<open>fetch\<close> is the summary service, giving the decoded
  document or nothing when the request fails. Reading \<open>ev["id"]\<close> and reading the
  box score off a document that is not a dictionary both raise inside the \<open>try\<close>, and
  leave the empty document.
\<close>

definition summary_of :: "(json \<Rightarrow> json option) \<Rightarrow> json \<Rightarrow> json" where
  "summary_of fetch ev =
     (case subscript_key ev ''id'' of
        Inl e \<Rightarrow> JDict []
      | Inr i \<Rightarrow> (case fetch i of Some (JDict d) \<Rightarrow> JDict d | _ \<Rightarrow> JDict []))"

text \<open>\<open>_collect_players(...) or _fallback_leaders(comp)\<close>\<close>

definition players_of :: "json \<Rightarrow> json \<Rightarrow> py_error + stat_line list" where
  "players_of summ cmpt =
     bind_r (dict_get summ ''boxscore'' (JDict [])) (\<lambda>box.
     bind_r (collect_players box) (\<lambda>ps.
       if ps \<noteq> [] then Inr ps else fallback_leaders cmpt))"

text \<open>
  The record of a finished game, once home and away are told apart (steps 1 to 5 of the
  loop body and the record appended).
\<close>

definition assemble_record ::
  "(json \<Rightarrow> json option) \<Rightarrow> (string \<Rightarrow> string option) \<Rightarrow> json \<Rightarrow> json \<Rightarrow> json \<Rightarrow> json
     \<Rightarrow> py_error + game_record list" where
  "assemble_record fetch site ev cmpt home_c away_c =
     bind_r (parse_round_and_game ev) (\<lambda>rg.
     bind_r (dict_get cmpt ''series'' (JDict [])) (\<lambda>sr.
     bind_r (dict_get sr ''summary'' (JStr [])) (\<lambda>summary_txt.
     bind_r (series_before_game summary_txt cmpt) (\<lambda>series_pre.
     bind_r (dict_get ev ''season'' (JDict [])) (\<lambda>se.
     bind_r (dict_get se ''type'' (JInt 1)) (\<lambda>st.
     bind_r (game_type_of st) (\<lambda>game_type.
     bind_r (players_of (summary_of fetch ev) cmpt) (\<lambda>players.
     bind_r (evaluate_badges players home_c away_c cmpt) (\<lambda>bs.
     bind_r (subscript_key home_c ''team'') (\<lambda>home_team.
     bind_r (subscript_key home_team ''displayName'') (\<lambda>dn.
     bind_r (if truthy dn then Inr dn else subscript_key home_team ''name'') (\<lambda>full_home.
     bind_r (find_replay_link_for_team site full_home) (\<lambda>replay_link.
     bind_r (subscript_key ev ''id'') (\<lambda>gid.
     bind_r (subscript_key ev ''date'') (\<lambda>dt.
     bind_r (subscript_key home_team ''abbreviation'') (\<lambda>home_ab.
     bind_r (team_abbr away_c) (\<lambda>away_ab.
     bind_r (subscript_key home_team ''logo'') (\<lambda>home_logo.
     bind_r (subscript_key away_c ''team'') (\<lambda>away_team.
     bind_r (subscript_key away_team ''logo'') (\<lambda>away_logo.
       Inr [\<lparr>gameId = gid, tipoffUTC = dt, home = home_ab, away = away_ab,
             homeLogo = home_logo, awayLogo = away_logo,
             roundTxt = fst rg, gameNum = snd rg, gameType = game_type,
             seriesPre = series_pre, badges = bs,
             replayLink = replay_link\<rparr>]))))))))))))))))))))"

text \<open>The state of a competition, lower case: \<open>comp["status"]["type"].get("state", "").lower()\<close>\<close>

definition state_of :: "json \<Rightarrow> py_error + string" where
  "state_of cmpt =
     bind_r (subscript_key cmpt ''status'') (\<lambda>s.
     bind_r (subscript_key s ''type'') (\<lambda>t.
     bind_r (dict_get t ''state'' (JStr [])) py_lower))"

text \<open>\<open>home, away = xs\<close>: unpacking needs exactly two elements.\<close>

definition unpack2 :: "json \<Rightarrow> py_error + json \<times> json" where
  "unpack2 xs =
     bind_r (py_iter xs) (\<lambda>cs. case cs of [c0, c1] \<Rightarrow> Inr (c0, c1) | _ \<Rightarrow> Inl ValueError)"

text \<open>One turn of the loop over the events: the record of a finished game, or nothing.\<close>

definition evaluate_event ::
  "(json \<Rightarrow> json option) \<Rightarrow> (string \<Rightarrow> string option) \<Rightarrow> json \<Rightarrow> py_error + game_record list" where
  "evaluate_event fetch site ev =
     bind_r (subscript_key ev ''competitions'') (\<lambda>cps.
     bind_r (subscript_idx cps 0) (\<lambda>cmpt.
     bind_r (state_of cmpt) (\<lambda>state.
       if state \<noteq> ''post'' then Inr []
       else
         bind_r (subscript_key cmpt ''competitors'') (\<lambda>competitors.
         bind_r (unpack2 competitors) (\<lambda>ha.
         bind_r (subscript_key (fst ha) ''homeAway'') (\<lambda>side.
           if py_eq side (JStr ''away'') then assemble_record fetch site ev cmpt (snd ha) (fst ha)
           else assemble_record fetch site ev cmpt (fst ha) (snd ha)))))))"

definition evaluate_games ::
  "(json \<Rightarrow> json option) \<Rightarrow> (string \<Rightarrow> string option) \<Rightarrow> json \<Rightarrow> py_error + game_record list" where
  "evaluate_games fetch site sb =
     bind_r (dict_get sb ''events'' (JList [])) (\<lambda>es.
     bind_r (py_iter es) (\<lambda>evs. for_collect (evaluate_event fetch site) evs))"

section \<open>Reading a competitor\<close>

text \<open>
  The statements below speak of a competitor through these two readings: a field of
  its team that is a string, and its winner flag.
\<close>

definition team_field :: "json \<Rightarrow> string \<Rightarrow> string option" where
  "team_field c k =
     (case bind_r (subscript_key c ''team'') (\<lambda>t. subscript_key t k) of
        Inr (JStr s) \<Rightarrow> Some s
      | _ \<Rightarrow> None)"

definition declared_winner :: "json \<Rightarrow> bool" where
  "declared_winner c = (case dict_get c ''winner'' JNull of Inr w \<Rightarrow> truthy w | Inl e \<Rightarrow> False)"

section \<open>Reading a Shape A block\<close>







section \<open>Rosters that are passed over\<close>

text \<open>
  The rosters neither branch of the extractor takes: anything that is not a list or a
  dictionary, the empty list, and a dictionary whose \<open>statistics\<close> is missing or falsy,
  is a string, or is a list whose first element is not a dictionary with a truthy
  \<open>athletes\<close>.
\<close>

definition skipped_roster :: "json \<Rightarrow> bool" where
  "skipped_roster roster =
     (case roster of
        JList plys \<Rightarrow> plys = []
      | JDict d \<Rightarrow>
          (case map_of d ''statistics'' of
             None \<Rightarrow> True
           | Some st \<Rightarrow>
               \<not> truthy st \<or>
               (case st of
                  JStr s \<Rightarrow> True
                | JList bs \<Rightarrow>
                    (case bs of
                       [] \<Rightarrow> True
                     | b # bs' \<Rightarrow>
                         (case b of
                            JDict bd \<Rightarrow>
                              (case map_of bd ''athletes'' of None \<Rightarrow> True | Some a \<Rightarrow> \<not> truthy a)
                          | _ \<Rightarrow> True))
                | _ \<Rightarrow> False))
      | _ \<Rightarrow> True)"

section \<open>Merging the leaders by name\<close>











section \<open>Documents for evaluation\<close>

text \<open>
  Small documents in the provider's layout; the theorems below are evaluated on them.
\<close>

definition team_doc :: "string \<Rightarrow> string \<Rightarrow> string \<Rightarrow> json" where
  "team_doc dn nm ab =
     JDict [(''displayName'', JStr dn), (''shortDisplayName'', JStr nm), (''name'', JStr nm),
            (''abbreviation'', JStr ab), (''logo'', JStr (lower ab @ ''.png''))]"

definition competitor_doc :: "string \<Rightarrow> bool \<Rightarrow> string \<Rightarrow> json \<Rightarrow> json" where
  "competitor_doc side won score team =
     JDict [(''homeAway'', JStr side), (''winner'', JBool won), (''score'', JStr score),
            (''team'', team)]"

definition mavericks :: json where
  "mavericks = team_doc ''Dallas Mavericks'' ''Mavericks'' ''DAL''"

definition celtics :: json where
  "celtics = team_doc ''Boston Celtics'' ''Celtics'' ''BOS''"

definition competition_doc :: "int \<Rightarrow> string \<Rightarrow> json" where
  "competition_doc per summary =
     JDict [(''status'', JDict [(''type'', JDict [(''state'', JStr ''post'')]), (''period'', JInt per)]),
            (''competitors'', JList [competitor_doc ''home'' True ''120'' mavericks,
                                     competitor_doc ''away'' False ''108'' celtics]),
            (''series'', JDict [(''summary'', JStr summary)])]"

definition event_doc :: "json \<Rightarrow> int \<Rightarrow> string \<Rightarrow> json" where
  "event_doc st per summary =
     JDict [(''id'', JStr ''401''), (''date'', JStr ''2025-05-01T00:30Z''),
            (''season'', JDict [(''type'', st)]),
            (''competitions'', JList [competition_doc per summary])]"

definition scoreboard_doc :: "json \<Rightarrow> int \<Rightarrow> string \<Rightarrow> json" where
  "scoreboard_doc st per summary = JDict [(''events'', JList [event_doc st per summary])]"





section \<open>Basic facts\<close>

lemma bind_r_simps [simp]:
  "bind_r (Inl e) f = Inl e"
  "bind_r (Inr v) f = f v"
  by (simp_all add: bind_r_def)

lemma bind_r_Inr_iff: "(bind_r r f = Inr y) = (\<exists>v. r = Inr v \<and> f v = Inr y)"
  by (cases r) simp_all

lemma for_collect_mem:
  "for_collect f xs = Inr ys \<Longrightarrow> y \<in> set ys \<Longrightarrow> \<exists>x\<in>set xs. \<exists>zs. f x = Inr zs \<and> y \<in> set zs"
  by (induction xs arbitrary: ys) (auto split: sum.splits)

section \<open>What the two patterns capture\<close>













section \<open>Decimal strings and competitors\<close>

lemma digit_not_special:
  assumes "is_digit c"
  shows "\<not> is_space c" "c \<noteq> CHR ''-''" "c \<noteq> CHR ''+''" "c \<noteq> CHR ''_''"
  using assms by (auto simp: is_digit_def is_space_def Let_def)

lemma body_ok_digits: "ds \<noteq> [] \<Longrightarrow> \<forall>c\<in>set ds. is_digit c \<Longrightarrow> body_ok ds"
  by (induction ds rule: body_ok.induct) (auto simp: digit_not_special)

lemma strip_digits:
  assumes "ds \<noteq> []" "\<forall>c\<in>set ds. is_digit c"
  shows "strip ds = ds"
proof -
  from assms have h: "\<not> is_space (hd ds)" and l: "\<not> is_space (last ds)"
    by (auto simp: digit_not_special)
  from assms(1) h have 1: "dropWhile is_space ds = ds" by (cases ds) auto
  from assms(1) l have 2: "dropWhile is_space (rev ds) = rev ds"
    by (cases "rev ds") (auto simp: last_rev [symmetric] hd_rev)
  show ?thesis unfolding strip_def 1 2 by simp
qed

lemma int_of_str_digits:
  assumes "ds \<noteq> []" "\<forall>c\<in>set ds. is_digit c"
  shows "int_of_str ds = Some (int (digits_value ds))"
proof -
  from assms obtain c r where ds: "ds = c # r" by (cases ds) auto
  with assms have c: "is_digit c" by simp
  have f: "filter (\<lambda>c. c \<noteq> CHR ''_'') ds = ds"
    using assms(2) by (auto simp: filter_id_conv digit_not_special)
  show ?thesis
    unfolding int_of_str_def strip_digits [OF assms]
    using body_ok_digits [OF assms] f digit_not_special [OF c]
    by (simp add: ds body_value_def)
qed

lemma py_int_digits:
  "ds \<noteq> [] \<Longrightarrow> \<forall>c\<in>set ds. is_digit c \<Longrightarrow> py_int (JStr ds) = Inr (int (digits_value ds))"
  by (simp add: int_of_str_digits)

lemma team_fieldD:
  assumes "team_field c k = Some s"
  shows "\<exists>t. subscript_key c ''team'' = Inr t \<and> subscript_key t k = Inr (JStr s)"
  using assms unfolding team_field_def
  by (cases "subscript_key c ''team''") (auto split: sum.splits json.splits)

lemma team_abbr_field:
  "team_field c ''abbreviation'' = Some ab \<Longrightarrow> team_abbr c = Inr (JStr ab)"
  by (auto dest!: team_fieldD simp: team_abbr_def)

lemma has_team_dict:
  "subscript_key c ''team'' = Inr t \<Longrightarrow> \<exists>d. c = JDict d"
  by (cases c) auto

lemma declared_winner_get:
  "subscript_key c ''team'' = Inr t \<Longrightarrow>
     \<exists>w. dict_get c ''winner'' JNull = Inr w \<and> truthy w = declared_winner c"
  by (cases c) (auto simp: declared_winner_def)

lemma winner_loser_pair:
  assumes "team_field c0 ''abbreviation'' = Some ab0" "team_field c1 ''abbreviation'' = Some ab1"
  shows "winner_loser (JList [c0, c1]) =
           Inr (if declared_winner c0 then (JStr ab0, JStr ab1)
                else if declared_winner c1 then (JStr ab1, JStr ab0)
                else (JStr ab0, JStr ab1))"
proof -
  from team_fieldD [OF assms(1)] obtain t0 where t0: "subscript_key c0 ''team'' = Inr t0" by blast
  from team_fieldD [OF assms(2)] obtain t1 where t1: "subscript_key c1 ''team'' = Inr t1" by blast
  from declared_winner_get [OF t0] obtain w0 where
    w0: "dict_get c0 ''winner'' JNull = Inr w0" "truthy w0 = declared_winner c0" by blast
  from declared_winner_get [OF t1] obtain w1 where
    w1: "dict_get c1 ''winner'' JNull = Inr w1" "truthy w1 = declared_winner c1" by blast
  show ?thesis
    unfolding winner_loser_def
    by (simp add: w0 w1 team_abbr_field [OF assms(1)] team_abbr_field [OF assms(2)])
qed



section \<open>Columns of a Shape A block\<close>











lemma skipped_collect_roster:
  assumes "skipped_roster r"
  shows "collect_roster r = Inr []"
proof (cases r)
  case (JDict d)
  show ?thesis
  proof (cases "map_of d ''statistics''")
    case None
    then show ?thesis unfolding collect_roster_def is_format_a_def JDict by simp
  next
    case (Some st)
    show ?thesis
    proof (cases "truthy st")
      case False
      then show ?thesis unfolding collect_roster_def is_format_a_def JDict by (simp add: Some)
    next
      case True
      with assms Some have c: "(case st of
                  JStr s \<Rightarrow> True
                | JList bs \<Rightarrow>
                    (case bs of
                       [] \<Rightarrow> True
                     | b # bs' \<Rightarrow>
                         (case b of
                            JDict bd \<Rightarrow>
                              (case map_of bd ''athletes'' of None \<Rightarrow> True | Some a \<Rightarrow> \<not> truthy a)
                          | _ \<Rightarrow> True))
                | _ \<Rightarrow> False)"
        unfolding skipped_roster_def JDict by simp
      have "is_format_a r = Inr False"
      proof (cases st)
        case (JStr s)
        with True show ?thesis unfolding is_format_a_def JDict by (simp add: Some)
      next
        case (JList bs)
        with True obtain b bs' where bs: "bs = b # bs'" by (cases bs) auto
        with c JList have "case b of
                       JDict bd \<Rightarrow> (case map_of bd ''athletes'' of None \<Rightarrow> True | Some a \<Rightarrow> \<not> truthy a)
                     | _ \<Rightarrow> True" by simp
        then show ?thesis unfolding is_format_a_def JDict
          by (cases b) (auto simp: Some JList bs split: option.splits)
      qed (use c in simp_all)
      then show ?thesis unfolding collect_roster_def JDict by simp
    qed
  qed
next
  case (JList plys)
  with assms have "plys = []" unfolding skipped_roster_def by simp
  then show ?thesis unfolding collect_roster_def is_format_a_def JList by simp
qed (simp_all add: collect_roster_def is_format_a_def)

lemma for_collect_filter:
  assumes "\<And>x. P x \<Longrightarrow> f x = Inr []"
  shows "for_collect f xs = for_collect f (filter (\<lambda>x. \<not> P x) xs)"
  by (induction xs) (auto simp: assms split: sum.splits)

section \<open>The loop of the fallback keeps names apart\<close>


lemma name_set_cat [simp]: "name (set_cat cat v p) = name p"
  unfolding set_cat_def by simp






section \<open>The fallback computes the merge\<close>


















section \<open>Badges\<close>

lemma foldl_max_ge: "(k \<le> foldl max (a::int) xs) = (k \<le> a \<or> (\<exists>x\<in>set xs. k \<le> x))"
  by (induction xs arbitrary: a) auto

lemma max_pts_ge: "0 < k \<Longrightarrow> (k \<le> max_pts players) = (\<exists>p\<in>set players. k \<le> pts p)"
  by (cases players) (auto simp: max_pts_def foldl_max_ge)

lemma tier_badges_mem:
  "(''pts50'' \<in> set (tier_badges ps)) = (\<exists>p\<in>set ps. 50 \<le> pts p)"
  "(''pts40'' \<in> set (tier_badges ps)) = ((\<exists>p\<in>set ps. 40 \<le> pts p) \<and> \<not> (\<exists>p\<in>set ps. 50 \<le> pts p))"
  "(''pts30'' \<in> set (tier_badges ps)) = ((\<exists>p\<in>set ps. 30 \<le> pts p) \<and> \<not> (\<exists>p\<in>set ps. 40 \<le> pts p))"
  unfolding tier_badges_def by (auto simp: max_pts_ge)

text \<open>The badge list is built from five parts, in this order.\<close>

lemma evaluate_badges_shape:
  assumes "evaluate_badges players h a c = Inr bs"
  shows "\<exists>c4 cg ot. bs = tier_badges players @ triple_badges players
            @ (if c4 then [''close4''] else [])
            @ (if cg then [''closeGame''] else [])
            @ (if ot then [''overtime''] else []) \<and> (ot \<longrightarrow> cg)"
  using assms unfolding evaluate_badges_def bind_r_def
  by (auto split: sum.splits if_splits)

lemma assemble_record_fields:
  assumes "assemble_record fetch site ev c h a = Inr rs" and "r \<in> set rs"
  shows "\<exists>players se st.
           evaluate_badges players h a c = Inr (badges r) \<and>
           dict_get ev ''season'' (JDict []) = Inr se \<and>
           dict_get se ''type'' (JInt 1) = Inr st \<and>
           game_type_of st = Inr (gameType r)"
  using assms unfolding assemble_record_def
  by (clarsimp simp: bind_r_Inr_iff) blast

lemma evaluate_event_record:
  assumes "evaluate_event fetch site ev = Inr rs" and "r \<in> set rs"
  shows "\<exists>players h a c se st.
           evaluate_badges players h a c = Inr (badges r) \<and>
           dict_get ev ''season'' (JDict []) = Inr se \<and>
           dict_get se ''type'' (JInt 1) = Inr st \<and>
           game_type_of st = Inr (gameType r)"
proof -
  from assms obtain c h a where "assemble_record fetch site ev c h a = Inr rs"
    unfolding evaluate_event_def
    by (auto simp: bind_r_Inr_iff split: if_splits)
  from assemble_record_fields [OF this assms(2)] show ?thesis by blast
qed

lemma evaluate_games_record:
  assumes "evaluate_games fetch site sb = Inr rs" and "r \<in> set rs"
  shows "\<exists>es evs ev rs'. dict_get sb ''events'' (JList []) = Inr es \<and> py_iter es = Inr evs \<and>
           ev \<in> set evs \<and> evaluate_event fetch site ev = Inr rs' \<and> r \<in> set rs'"
proof -
  from assms(1) obtain es evs where
    e: "dict_get sb ''events'' (JList []) = Inr es" "py_iter es = Inr evs"
       "for_collect (evaluate_event fetch site) evs = Inr rs"
    unfolding evaluate_games_def by (auto simp: bind_r_Inr_iff)
  from for_collect_mem [OF e(3) assms(2)] e(1,2) show ?thesis by blast
qed

text \<open>
  C4. Whenever the badges of a game are computed, the list holds \<open>pts50\<close> exactly when
  some stat line has 50 points or more, \<open>pts40\<close> exactly when some line has 40 or more
  and none has 50, \<open>pts30\<close> exactly when some line has 30 or more and none has 40; so
  at most one of the three tags stands in the list, the one of the highest threshold
  reached.
\<close>

theorem badge_tier_highest_wins:
  assumes "evaluate_badges players home_c away_c cmpt = Inr bs"
  shows "(''pts50'' \<in> set bs \<longleftrightarrow> (\<exists>p\<in>set players. 50 \<le> pts p)) \<and>
         (''pts40'' \<in> set bs \<longleftrightarrow>
            (\<exists>p\<in>set players. 40 \<le> pts p) \<and> \<not> (\<exists>p\<in>set players. 50 \<le> pts p)) \<and>
         (''pts30'' \<in> set bs \<longleftrightarrow>
            (\<exists>p\<in>set players. 30 \<le> pts p) \<and> \<not> (\<exists>p\<in>set players. 40 \<le> pts p)) \<and>
         length (filter (\<lambda>b. b = ''pts30'' \<or> b = ''pts40'' \<or> b = ''pts50'') bs) \<le> 1"
proof -
  from evaluate_badges_shape [OF assms] obtain c4 cg ot where
    bs: "bs = tier_badges players @ triple_badges players
            @ (if c4 then [''close4''] else [])
            @ (if cg then [''closeGame''] else [])
            @ (if ot then [''overtime''] else [])" by blast
  have t: "set bs \<inter> {''pts30'', ''pts40'', ''pts50''}
           = set (tier_badges players) \<inter> {''pts30'', ''pts40'', ''pts50''}"
    unfolding bs triple_badges_def by auto
  have l: "length (filter (\<lambda>b. b = ''pts30'' \<or> b = ''pts40'' \<or> b = ''pts50'') bs) \<le> 1"
    unfolding bs triple_badges_def tier_badges_def by simp
  from t have "''pts50'' \<in> set bs \<longleftrightarrow> ''pts50'' \<in> set (tier_badges players)"
    and "''pts40'' \<in> set bs \<longleftrightarrow> ''pts40'' \<in> set (tier_badges players)"
    and "''pts30'' \<in> set bs \<longleftrightarrow> ''pts30'' \<in> set (tier_badges players)"
    by blast+
  with l show ?thesis by (simp only: tier_badges_mem)
qed

theorem badge_tier_highest_wins_witness:
  "evaluate_badges [\<lparr>name = JStr ''A'', pts = 52, reb = 5, ast = 3\<rparr>]
      (competitor_doc ''home'' True ''120'' mavericks)
      (competitor_doc ''away'' False ''108'' celtics)
      (competition_doc 4 [])
    = Inr [''pts50'', ''close4''] \<and>
   ''pts50'' \<in> set [''pts50'', ''close4''] \<and>
   ''pts40'' \<notin> set [''pts50'', ''close4''] \<and>
   ''pts30'' \<notin> set [''pts50'', ''close4''] \<and>
   (\<exists>p\<in>set [\<lparr>name = JStr ''A'', pts = 52, reb = 5, ast = 3\<rparr>]. 50 \<le> pts p)"
proof -
  have e: "evaluate_badges [\<lparr>name = JStr ''A'', pts = 52, reb = 5, ast = 3\<rparr>]
      (competitor_doc ''home'' True ''120'' mavericks)
      (competitor_doc ''away'' False ''108'' celtics)
      (competition_doc 4 [])
    = Inr [''pts50'', ''close4'']"
    by code_simp
  from badge_tier_highest_wins [OF e] e show ?thesis by simp
qed

text \<open>
  C10. In every record the assembler returns, a badge list that holds \<open>overtime\<close> holds
  \<open>closeGame\<close> too, whatever the final scores are.
\<close>

theorem overtime_implies_close_game:
  assumes "evaluate_games fetch site sb = Inr rs" and "r \<in> set rs"
    and "''overtime'' \<in> set (badges r)"
  shows "''closeGame'' \<in> set (badges r)"
proof -
  from evaluate_games_record [OF assms(1,2)] obtain ev rs' where
    "evaluate_event fetch site ev = Inr rs'" "r \<in> set rs'" by blast
  from evaluate_event_record [OF this] obtain players h a c where
    "evaluate_badges players h a c = Inr (badges r)" by blast
  from evaluate_badges_shape [OF this] obtain c4 cg ot where
    bs: "badges r = tier_badges players @ triple_badges players
            @ (if c4 then [''close4''] else [])
            @ (if cg then [''closeGame''] else [])
            @ (if ot then [''overtime''] else [])" and i: "ot \<longrightarrow> cg" by blast
  have "''overtime'' \<in> set (badges r) \<Longrightarrow> ot"
    unfolding bs tier_badges_def triple_badges_def by (auto split: if_splits)
  with assms(3) i have cg by blast
  then show ?thesis unfolding bs by simp
qed

theorem overtime_implies_close_game_witness:
  "evaluate_games (\<lambda>i. None) (\<lambda>s. None) (scoreboard_doc (JInt 3) 5 ''Mavericks leads series 3-2'')
     = Inr [\<lparr>gameId = JStr ''401'', tipoffUTC = JStr ''2025-05-01T00:30Z'', home = JStr ''DAL'',
         away = JStr ''BOS'', homeLogo = JStr ''dal.png'', awayLogo = JStr ''bos.png'',
         roundTxt = [], gameNum = [], gameType = ''Playoffs'',
         seriesPre = JStr ''DAL leads series 2-2'',
         badges = [''close4'', ''closeGame'', ''overtime''], replayLink = None\<rparr>] \<and>
   ''overtime'' \<in> set [''close4'', ''closeGame'', ''overtime''] \<and>
   ''closeGame'' \<in> set [''close4'', ''closeGame'', ''overtime'']"
proof -
  let ?r = "\<lparr>gameId = JStr ''401'', tipoffUTC = JStr ''2025-05-01T00:30Z'', home = JStr ''DAL'',
         away = JStr ''BOS'', homeLogo = JStr ''dal.png'', awayLogo = JStr ''bos.png'',
         roundTxt = [], gameNum = [], gameType = ''Playoffs'',
         seriesPre = JStr ''DAL leads series 2-2'',
         badges = [''close4'', ''closeGame'', ''overtime''], replayLink = None\<rparr>"
  have e: "evaluate_games (\<lambda>i. None) (\<lambda>s. None)
             (scoreboard_doc (JInt 3) 5 ''Mavericks leads series 3-2'') = Inr [?r]"
    by code_simp
  have m: "?r \<in> set [?r]" by simp
  have o: "''overtime'' \<in> set (badges ?r)" by simp
  from overtime_implies_close_game [OF e m o] e show ?thesis by simp
qed

section \<open>Series labels\<close>










section \<open>Game type\<close>

text \<open>
  C5. The record of a finished event has the game type \<open>Regular Season\<close> when the
  season-type code of the event (1 when the event gives none) equals 1, \<open>Playoffs\<close>
  when it equals 3, and otherwise the third label, which the source writes with the
  non-breaking hyphen U+2011: as a string it differs from \<open>Play-In\<close> written with the
  ASCII hyphen, as the counterexample shows.
\<close>

theorem game_type_of_event:
  assumes "evaluate_event fetch site ev = Inr rs" and "r \<in> set rs"
    and "dict_get ev ''season'' (JDict []) = Inr se"
    and "dict_get se ''type'' (JInt 1) = Inr st"
  shows "gameType r =
           (if py_eq st (JInt 1) then ''Regular Season''
            else if py_eq st (JInt 3) then ''Playoffs''
            else play_in)"
proof -
  from evaluate_event_record [OF assms(1,2)] assms(3,4)
  have "game_type_of st = Inr (gameType r)" by auto
  then show ?thesis unfolding game_type_of_def by (cases st) auto
qed

theorem game_type_of_event_witness:
  "evaluate_event (\<lambda>i. None) (\<lambda>s. None) (event_doc (JInt 7) 4 ''Series tied 2-2'')
     = Inr [\<lparr>gameId = JStr ''401'', tipoffUTC = JStr ''2025-05-01T00:30Z'', home = JStr ''DAL'',
         away = JStr ''BOS'', homeLogo = JStr ''dal.png'', awayLogo = JStr ''bos.png'',
         roundTxt = [], gameNum = [], gameType = play_in,
         seriesPre = JStr ''BOS leads series 2-1'',
         badges = [''close4''], replayLink = None\<rparr>] \<and>
   dict_get (event_doc (JInt 7) 4 ''Series tied 2-2'') ''season'' (JDict [])
     = Inr (JDict [(''type'', JInt 7)]) \<and>
   dict_get (JDict [(''type'', JInt 7)]) ''type'' (JInt 1) = Inr (JInt 7) \<and>
   \<not> py_eq (JInt 7) (JInt 1) \<and> \<not> py_eq (JInt 7) (JInt 3)"
proof -
  let ?r = "\<lparr>gameId = JStr ''401'', tipoffUTC = JStr ''2025-05-01T00:30Z'', home = JStr ''DAL'',
         away = JStr ''BOS'', homeLogo = JStr ''dal.png'', awayLogo = JStr ''bos.png'',
         roundTxt = [], gameNum = [], gameType = play_in,
         seriesPre = JStr ''BOS leads series 2-1'',
         badges = [''close4''], replayLink = None\<rparr>"
  have e: "evaluate_event (\<lambda>i. None) (\<lambda>s. None) (event_doc (JInt 7) 4 ''Series tied 2-2'') = Inr [?r]"
    by code_simp
  have m: "?r \<in> set [?r]" by simp
  have s: "dict_get (event_doc (JInt 7) 4 ''Series tied 2-2'') ''season'' (JDict [])
     = Inr (JDict [(''type'', JInt 7)])" by code_simp
  have t: "dict_get (JDict [(''type'', JInt 7)]) ''type'' (JInt 1) = Inr (JInt 7)" by code_simp
  have n: "\<not> py_eq (JInt 7) (JInt 1)" "\<not> py_eq (JInt 7) (JInt 3)" by simp_all
  from game_type_of_event [OF e m s t] e s t n show ?thesis by blast
qed

theorem game_type_play_in_counterexample:
  "evaluate_games (\<lambda>i. None) (\<lambda>s. None) (scoreboard_doc (JInt 2) 4 [])
     = Inr [\<lparr>gameId = JStr ''401'', tipoffUTC = JStr ''2025-05-01T00:30Z'', home = JStr ''DAL'',
         away = JStr ''BOS'', homeLogo = JStr ''dal.png'', awayLogo = JStr ''bos.png'',
         roundTxt = [], gameNum = [],
         gameType = [CHR ''P'', CHR ''l'', CHR ''a'', CHR ''y'', CHR 0xE2, CHR 0x80, CHR 0x91,
                     CHR ''I'', CHR ''n''],
         seriesPre = JStr [],
         badges = [''close4''], replayLink = None\<rparr>] \<and>
   [CHR ''P'', CHR ''l'', CHR ''a'', CHR ''y'', CHR 0xE2, CHR 0x80, CHR 0x91, CHR ''I'', CHR ''n'']
     \<noteq> ''Play-In''"
  by code_simp

section \<open>Stat lines\<close>



text \<open>
  C2. The extractor is not total on every shape: it raises KeyError when
  \<open>statistics\<close> is a non-empty dictionary, AttributeError when a list roster holds
  an entry that is not a dictionary, TypeError when \<open>statistics\<close> is a non-zero number.
  What holds is that the rosters neither branch takes are passed over: they raise
  nothing and add no line, so the result is that of the remaining rosters, and the
  empty list when every roster is passed over.
\<close>

theorem skipped_rosters_add_nothing:
  assumes "dict_get boxscore ''players'' (JList []) = Inr (JList rosters)"
  shows "collect_players boxscore
           = for_collect collect_roster (filter (\<lambda>r. \<not> skipped_roster r) rosters) \<and>
         (if list_all skipped_roster rosters then collect_players boxscore = Inr [] else True)"
proof -
  have a: "collect_players boxscore
           = for_collect collect_roster (filter (\<lambda>r. \<not> skipped_roster r) rosters)"
    unfolding collect_players_def
    by (simp add: assms for_collect_filter [where P = skipped_roster, OF skipped_collect_roster, symmetric])
  have "filter (\<lambda>r. \<not> skipped_roster r) rosters = []" if "list_all skipped_roster rosters"
    using that by (simp add: list_all_iff filter_empty_conv)
  with a show ?thesis by simp
qed

theorem skipped_rosters_add_nothing_witness:
  "dict_get (JDict [(''players'',
       JList [JStr ''x'', JNull, JInt 7, JDict [], JList [],
              JDict [(''statistics'', JStr ''abc'')],
              JDict [(''statistics'', JList [])],
              JDict [(''statistics'', JList [JInt 1, JInt 2])],
              JDict [(''statistics'', JList [JDict [(''names'', JList [])]])]])]) ''players'' (JList [])
     = Inr (JList [JStr ''x'', JNull, JInt 7, JDict [], JList [],
              JDict [(''statistics'', JStr ''abc'')],
              JDict [(''statistics'', JList [])],
              JDict [(''statistics'', JList [JInt 1, JInt 2])],
              JDict [(''statistics'', JList [JDict [(''names'', JList [])]])]]) \<and>
   list_all skipped_roster [JStr ''x'', JNull, JInt 7, JDict [], JList [],
              JDict [(''statistics'', JStr ''abc'')],
              JDict [(''statistics'', JList [])],
              JDict [(''statistics'', JList [JInt 1, JInt 2])],
              JDict [(''statistics'', JList [JDict [(''names'', JList [])]])]] \<and>
   collect_players (JDict [(''players'',
       JList [JStr ''x'', JNull, JInt 7, JDict [], JList [],
              JDict [(''statistics'', JStr ''abc'')],
              JDict [(''statistics'', JList [])],
              JDict [(''statistics'', JList [JInt 1, JInt 2])],
              JDict [(''statistics'', JList [JDict [(''names'', JList [])]])]])]) = Inr []"
proof -
  let ?rs = "[JStr ''x'', JNull, JInt 7, JDict [], JList [],
              JDict [(''statistics'', JStr ''abc'')],
              JDict [(''statistics'', JList [])],
              JDict [(''statistics'', JList [JInt 1, JInt 2])],
              JDict [(''statistics'', JList [JDict [(''names'', JList [])]])]]"
  have g: "dict_get (JDict [(''players'', JList ?rs)]) ''players'' (JList []) = Inr (JList ?rs)"
    by simp
  have l: "list_all skipped_roster ?rs" by code_simp
  from skipped_rosters_add_nothing [OF g] g l show ?thesis by simp
qed

theorem extractor_raises_counterexample:
  "collect_players (JDict [(''players'', JList [JDict [(''statistics'', JDict [(''a'', JInt 1)])]])])
     = Inl KeyError \<and>
   collect_players (JDict [(''players'', JList [JList [JStr ''x'']])]) = Inl AttributeError \<and>
   collect_players (JDict [(''players'', JList [JDict [(''statistics'', JInt 5)]])]) = Inl TypeError"
  by code_simp





end
